theory Spec2Isabelle
  imports Complex_Main
begin

section \<open>The type \<open>double\<close>\<close>

text \<open>
  The shapes of \<open>visitor3.cpp\<close> carry \<open>double\<close> fields and the second dispatcher computes
  with them.  A \<open>double\<close> is modelled as an IEEE 754 binary64 datum: a finite value
  \<open>(-1)^s * m * 2^e\<close> with significand \<open>m < 2^53\<close> and exponent \<open>-1074 \<le> e \<le> 971\<close>, an
  infinity, or a NaN.  Each operation rounds its exact result to nearest, ties to even,
  which is the default rounding mode the program never changes; intermediate results
  are held in binary64, not in a wider format.
\<close>

datatype double = Finite bool nat int | Infinity bool | NaN

fun bit_length :: "nat \<Rightarrow> nat" where
  "bit_length n = (if n = 0 then 0 else Suc (bit_length (n div 2)))"

declare bit_length.simps [simp del]

definition floor_log2 :: "nat \<Rightarrow> nat \<Rightarrow> int" where
  \<comment> \<open>the integer \<open>k\<close> with \<open>2^k \<le> n / d < 2^(k+1)\<close>, for positive \<open>n\<close> and \<open>d\<close>\<close>
  "floor_log2 n d =
     (let k = int (bit_length n) - int (bit_length d)
      in if (if 0 \<le> k then d * 2 ^ nat k \<le> n else d \<le> n * 2 ^ nat (- k)) then k else k - 1)"

definition round_to_double :: "bool \<Rightarrow> nat \<Rightarrow> nat \<Rightarrow> double" where
  \<comment> \<open>the binary64 datum nearest to \<open>(-1)^s * n / d\<close> (ties to even), for \<open>d > 0\<close>\<close>
  "round_to_double s n d =
     (if n = 0 then Finite s 0 (- 1074)
      else
        let q = max (floor_log2 n d - 52) (- 1074);
            N = (if q < 0 then n * 2 ^ nat (- q) else n);
            D = (if q < 0 then d else d * 2 ^ nat q);
            m = N div D;
            r = N mod D;
            m1 = (if 2 * r < D then m
                  else if D < 2 * r then m + 1
                  else if even m then m else m + 1);
            m2 = (if m1 = 2 ^ 53 then 2 ^ 52 else m1);
            q2 = (if m1 = 2 ^ 53 then q + 1 else q)
        in if 971 < q2 then Infinity s else Finite s m2 q2)"

definition round_dyadic :: "bool \<Rightarrow> nat \<Rightarrow> int \<Rightarrow> double" where
  "round_dyadic s m e =
     (if 0 \<le> e then round_to_double s (m * 2 ^ nat e) 1
      else round_to_double s m (2 ^ nat (- e)))"

definition double_lit :: "nat \<Rightarrow> nat \<Rightarrow> double" where
  \<comment> \<open>a decimal literal, given as the fraction it denotes: \<open>3.1415\<close> is \<open>double_lit 31415 10000\<close>\<close>
  "double_lit n d = round_to_double False n d"

definition double_of_int :: "int \<Rightarrow> double" where
  \<comment> \<open>the conversion of an \<open>int\<close> operand in mixed arithmetic\<close>
  "double_of_int i = round_to_double (i < 0) (nat \<bar>i\<bar>) 1"

fun fneg :: "double \<Rightarrow> double" where
  "fneg (Finite s m e) = Finite (\<not> s) m e"
| "fneg (Infinity s) = Infinity (\<not> s)"
| "fneg NaN = NaN"

fun fmul :: "double \<Rightarrow> double \<Rightarrow> double" where
  "fmul NaN y = NaN"
| "fmul x NaN = NaN"
| "fmul (Infinity s) (Infinity t) = Infinity (s \<noteq> t)"
| "fmul (Infinity s) (Finite t m e) = (if m = 0 then NaN else Infinity (s \<noteq> t))"
| "fmul (Finite s m e) (Infinity t) = (if m = 0 then NaN else Infinity (s \<noteq> t))"
| "fmul (Finite s m e) (Finite t m' e') = round_dyadic (s \<noteq> t) (m * m') (e + e')"

fun valof :: "double \<Rightarrow> rat option" where
  "valof (Finite s m e) =
     Some ((if s then - 1 else 1) * (if 0 \<le> e then of_nat m * 2 ^ nat e else of_nat m / 2 ^ nat (- e)))"
| "valof (Infinity s) = None"
| "valof NaN = None"

section \<open>Shapes\<close>

text \<open>
  \<open>Circle\<close>, \<open>Square\<close> and \<open>Blob\<close> are three unrelated value classes; the base \<open>IShape\<close>
  has no data.  Each constructor stores its argument.
\<close>

record Circle =
  radius :: double

record Square =
  side :: double

datatype Blob = Blob_obj

definition Circle_ctor :: "double \<Rightarrow> Circle" where
  "Circle_ctor r = \<lparr>radius = r\<rparr>"

definition Square_ctor :: "double \<Rightarrow> Square" where
  "Square_ctor s = \<lparr>side = s\<rparr>"

definition Blob_ctor :: "Blob" where
  "Blob_ctor = Blob_obj"

section \<open>Handlers\<close>

text \<open>
  \<open>Func<T>\<close> is \<open>std::function<Result (T& sh)>\<close>.  A call receives the shape by reference
  and may change it, may change whatever else its target can reach (the environment
  \<open>'w\<close>), and either returns a \<open>Result\<close> or throws.  The shape and the environment are
  passed in and returned.  An empty \<open>std::function\<close> throws \<open>bad_function_call\<close> when
  called.  A handler is taken to terminate.  A handler of this type does not reach the
  adapter that holds it: the environment \<open>'w\<close> does not contain that adapter.  Handlers
  that do reach it are the subject of section \<open>Handlers that reach their adapter\<close>.
\<close>

datatype exn = Bad_function_call | Thrown string

type_synonym ('t, 'r, 'w) Func = "'t \<Rightarrow> 'w \<Rightarrow> (exn + 'r) \<times> 't \<times> 'w"

definition empty_Func :: "('t, 'r, 'w) Func" where
  "empty_Func sh w = (Inl Bad_function_call, sh, w)"

section \<open>FunctionAdapter\<close>

text \<open>
  \<open>Result{}\<close> in the constructor's initialiser list is value-initialisation: the empty
  string for \<open>std::string\<close>, positive zero for \<open>double\<close>.
\<close>

instantiation list :: (type) default
begin
definition default_list_def: "default = ([] :: 'a list)"
instance ..
end

instantiation double :: default
begin
definition default_double_def: "default = Finite False 0 (- 1074)"
instance ..
end

record ('r, 'w) FunctionAdapter =
  res :: 'r
  fn_circle :: "(Circle, 'r, 'w) Func"
  fn_square :: "(Square, 'r, 'w) Func"
  fn_blob :: "(Blob, 'r, 'w) Func"

definition get :: "('r, 'w) FunctionAdapter \<Rightarrow> 'r" where
  "get D = res D"

definition FunctionAdapter_ctor ::
  "(Circle, 'r, 'w) Func \<Rightarrow> (Square, 'r, 'w) Func \<Rightarrow> (Blob, 'r, 'w) Func
     \<Rightarrow> ('r :: default, 'w) FunctionAdapter" where
  "FunctionAdapter_ctor fnCircle fnSquare fnBlob =
     \<lparr>res = default, fn_circle = fnCircle, fn_square = fnSquare, fn_blob = fnBlob\<rparr>"

text \<open>
  A member call returns its outcome together with the adapter, the shape and the
  environment as the call leaves them.
\<close>

type_synonym ('a, 'r, 't, 'w) call = "(exn + 'a) \<times> ('r, 'w) FunctionAdapter \<times> 't \<times> 'w"

fun outcome_of :: "('a, 'r, 't, 'w) call \<Rightarrow> exn + 'a" where
  "outcome_of (r, D, sh, w) = r"

fun adapter_of :: "('a, 'r, 't, 'w) call \<Rightarrow> ('r, 'w) FunctionAdapter" where
  "adapter_of (r, D, sh, w) = D"

fun shape_of :: "('a, 'r, 't, 'w) call \<Rightarrow> 't" where
  "shape_of (r, D, sh, w) = sh"

fun env_of :: "('a, 'r, 't, 'w) call \<Rightarrow> 'w" where
  "env_of (r, D, sh, w) = w"

definition assign_res ::
  "('r, 'w) FunctionAdapter \<Rightarrow> (exn + 'r) \<times> 't \<times> 'w \<Rightarrow> (unit, 'r, 't, 'w) call" where
  \<comment> \<open>\<open>_res = f(sh)\<close>: the assignment happens only when the call returns\<close>
  "assign_res D out =
     (case out of
        (Inl e, sh', w') \<Rightarrow> (Inl e, D, sh', w')
      | (Inr r, sh', w') \<Rightarrow> (Inr (), D\<lparr>res := r\<rparr>, sh', w'))"

definition visit_Circle ::
  "('r, 'w) FunctionAdapter \<Rightarrow> Circle \<Rightarrow> 'w \<Rightarrow> (unit, 'r, Circle, 'w) call" where
  "visit_Circle D sh w = assign_res D (fn_circle D sh w)"

definition visit_Square ::
  "('r, 'w) FunctionAdapter \<Rightarrow> Square \<Rightarrow> 'w \<Rightarrow> (unit, 'r, Square, 'w) call" where
  "visit_Square D sh w = assign_res D (fn_square D sh w)"

definition visit_Blob ::
  "('r, 'w) FunctionAdapter \<Rightarrow> Blob \<Rightarrow> 'w \<Rightarrow> (unit, 'r, Blob, 'w) call" where
  "visit_Blob D sh w = assign_res D (fn_blob D sh w)"

text \<open>
  \<open>operator()\<close> is a member template over the argument type.  Its call \<open>this->visit(visitable)\<close>
  is resolved at instantiation to the \<open>visit\<close> overload for that type, which is the
  parameter \<open>visit_T\<close> here: \<open>operator_call visit_Circle\<close> is the instance at \<open>Circle\<close>.
\<close>

definition operator_call ::
  "(('r, 'w) FunctionAdapter \<Rightarrow> 't \<Rightarrow> 'w \<Rightarrow> (unit, 'r, 't, 'w) call)
     \<Rightarrow> ('r, 'w) FunctionAdapter \<Rightarrow> 't \<Rightarrow> 'w \<Rightarrow> ('r, 'r, 't, 'w) call" where
  "operator_call visit_T D visitable w =
     (case visit_T D visitable w of
        (Inl e, D', sh', w') \<Rightarrow> (Inl e, D', sh', w')
      | (Inr u, D', sh', w') \<Rightarrow> (Inr (get D'), D', sh', w'))"

section \<open>Visitable\<close>

text \<open>
  \<open>Visitable<Implementation>::accept\<close> is a template over the visitor's type.  The call
  \<open>v.visit(static_cast<Implementation&>(*this))\<close> is resolved to the visitor's overload for
  \<open>Implementation&\<close>, the parameter \<open>visit_I\<close>; \<open>this\<close> is the object the base belongs to.
  The visitor is taken by reference, so its state after the call is part of the result.
\<close>

definition accept :: "('v \<Rightarrow> 'i \<Rightarrow> 'w \<Rightarrow> 'e \<times> 'v \<times> 'i \<times> 'w) \<Rightarrow> 'i \<Rightarrow> 'v \<Rightarrow> 'w \<Rightarrow> 'e \<times> 'v \<times> 'i \<times> 'w" where
  "accept visit_I this v w = visit_I v this w"

section \<open>The two dispatchers of the file\<close>

definition visitorGetName :: "(string, 'w) FunctionAdapter" where
  "visitorGetName = FunctionAdapter_ctor
     (\<lambda>sh w. (Inr ''circle'', sh, w))
     (\<lambda>sh w. (Inr ''square'', sh, w))
     (\<lambda>sh w. (Inr ''blob'', sh, w))"

definition visitorGetArea :: "(double, 'w) FunctionAdapter" where
  "visitorGetArea = FunctionAdapter_ctor
     (\<lambda>s w. (Inr (fmul (fmul (fmul (double_of_int 2) (double_lit 31415 10000)) (radius s)) (radius s)), s, w))
     (\<lambda>s w. (Inr (fmul (double_lit 40 10) (side s)), s, w))
     (\<lambda>sh w. (Inr (fneg (double_lit 1000 10)), sh, w))"


section \<open>The program\<close>

text \<open>
  The global state of the program is the two adapters and the standard output stream.
  The stream is the sequence of values inserted so far; a \<open>double\<close> is recorded as the
  datum inserted, not as the digits it is rendered with.  The third global, \<open>visitorX\<close>,
  is constructed before \<open>main\<close> and never used.
\<close>

datatype out_item = OStr string | ODouble double

record globals =
  visitorGetName_obj :: "(string, out_item list) FunctionAdapter"
  visitorGetArea_obj :: "(double, out_item list) FunctionAdapter"
  cout :: "out_item list"

definition startup :: "out_item list \<Rightarrow> globals" where
  \<comment> \<open>the globals as static initialisation leaves them, on a stream holding \<open>out\<close>\<close>
  "startup out =
     \<lparr>visitorGetName_obj = visitorGetName, visitorGetArea_obj = visitorGetArea, cout = out\<rparr>"

type_synonym 'a stmt = "globals \<Rightarrow> (exn + 'a) \<times> globals"

definition ret :: "'a \<Rightarrow> 'a stmt" where
  "ret a g = (Inr a, g)"

definition seq :: "'a stmt \<Rightarrow> ('a \<Rightarrow> 'b stmt) \<Rightarrow> 'b stmt" where
  \<comment> \<open>sequencing: an exception skips the rest\<close>
  "seq m k g = (case m g of (Inl e, g') \<Rightarrow> (Inl e, g') | (Inr a, g') \<Rightarrow> k a g')"

definition put :: "out_item \<Rightarrow> unit stmt" where
  \<comment> \<open>\<open>std::cout << x\<close>\<close>
  "put x g = (Inr (), g\<lparr>cout := cout g @ [x]\<rparr>)"

definition on_GetName ::
  "((string, out_item list) FunctionAdapter \<Rightarrow> out_item list
      \<Rightarrow> (exn + 'a) \<times> (string, out_item list) FunctionAdapter \<times> 't \<times> out_item list)
     \<Rightarrow> ('a \<times> 't) stmt" where
  \<comment> \<open>a member call on the global \<open>visitorGetName\<close>; yields the result and the shape as left\<close>
  "on_GetName m g =
     (case m (visitorGetName_obj g) (cout g) of
        (Inl e, D', sh', c') \<Rightarrow> (Inl e, g\<lparr>visitorGetName_obj := D', cout := c'\<rparr>)
      | (Inr a, D', sh', c') \<Rightarrow> (Inr (a, sh'), g\<lparr>visitorGetName_obj := D', cout := c'\<rparr>))"

definition on_GetArea ::
  "((double, out_item list) FunctionAdapter \<Rightarrow> out_item list
      \<Rightarrow> (exn + 'a) \<times> (double, out_item list) FunctionAdapter \<times> 't \<times> out_item list)
     \<Rightarrow> ('a \<times> 't) stmt" where
  "on_GetArea m g =
     (case m (visitorGetArea_obj g) (cout g) of
        (Inl e, D', sh', c') \<Rightarrow> (Inl e, g\<lparr>visitorGetArea_obj := D', cout := c'\<rparr>)
      | (Inr a, D', sh', c') \<Rightarrow> (Inr (a, sh'), g\<lparr>visitorGetArea_obj := D', cout := c'\<rparr>))"

definition read_GetName :: "string stmt" where
  \<comment> \<open>\<open>visitorGetName.get()\<close>\<close>
  "read_GetName g = (Inr (get (visitorGetName_obj g)), g)"

definition read_GetArea :: "double stmt" where
  \<comment> \<open>\<open>visitorGetArea.get()\<close>\<close>
  "read_GetArea g = (Inr (get (visitorGetArea_obj g)), g)"

definition newline :: string where
  "newline = [CHR 0x0A]"

text \<open>
  \<open>main\<close>, statement by statement.  Within one output statement the operands are
  evaluated and inserted from left to right.
\<close>

definition main :: "int stmt" where
  "main =
    (let s1 = Circle_ctor (double_lit 30 10);
         s2 = Square_ctor (double_lit 40 10);
         s3 = Blob_ctor
     in
     seq (put (OStr ''===> Experiment 1: FunctionAdapter '')) (\<lambda>_.
     seq (put (OStr newline)) (\<lambda>_.
     seq (on_GetName (accept visit_Circle s1)) (\<lambda>(_, s1).
     seq (put (OStr ''Type of shape 1 = '')) (\<lambda>_.
     seq read_GetName (\<lambda>v.
     seq (put (OStr v)) (\<lambda>_.
     seq (put (OStr newline)) (\<lambda>_.
     seq (put (OStr ''Type of shape 2 = '')) (\<lambda>_.
     seq (on_GetName (\<lambda>D. operator_call visit_Square D s2)) (\<lambda>(v, s2).
     seq (put (OStr v)) (\<lambda>_.
     seq (put (OStr newline)) (\<lambda>_.
     seq (put (OStr ''Type of shape 3 = '')) (\<lambda>_.
     seq (on_GetName (\<lambda>D. operator_call visit_Blob D s3)) (\<lambda>(v, s3).
     seq (put (OStr v)) (\<lambda>_.
     seq (put (OStr newline)) (\<lambda>_.
     seq (put (OStr ''===> Experiment 2: FunctionAdapter '')) (\<lambda>_.
     seq (put (OStr newline)) (\<lambda>_.
     seq (on_GetArea (accept visit_Circle s1)) (\<lambda>(_, s1).
     seq (put (OStr ''Perimeter of shape 1 = '')) (\<lambda>_.
     seq read_GetArea (\<lambda>v.
     seq (put (ODouble v)) (\<lambda>_.
     seq (put (OStr newline)) (\<lambda>_.
     seq (on_GetArea (accept visit_Square s2)) (\<lambda>(_, s2).
     seq (put (OStr ''Perimeter of shape 2 = '')) (\<lambda>_.
     seq read_GetArea (\<lambda>v.
     seq (put (ODouble v)) (\<lambda>_.
     seq (put (OStr newline)) (\<lambda>_.
     seq (put (OStr ''Perimeter of shape 2 = '')) (\<lambda>_.
     seq (on_GetArea (\<lambda>D. operator_call visit_Square D s2)) (\<lambda>(v, s2).
     seq (put (ODouble v)) (\<lambda>_.
     seq (put (OStr newline)) (\<lambda>_.
     seq (on_GetArea (accept visit_Blob s3)) (\<lambda>(_, s3).
     seq (put (OStr ''Perimeter of shape 3 = '')) (\<lambda>_.
     seq read_GetArea (\<lambda>v.
     seq (put (ODouble v)) (\<lambda>_.
     seq (put (OStr newline)) (\<lambda>_.
     ret 0)))))))))))))))))))))))))))))))))))))"

section \<open>Vocabulary of the statements\<close>

text \<open>What a call does apart from the adapter: its outcome, the shape and the environment.\<close>

fun effect_of :: "('a, 'r, 't, 'w) call \<Rightarrow> (exn + 'a) \<times> 't \<times> 'w" where
  "effect_of (r, D, sh, w) = (r, sh, w)"

text \<open>
  A client of an adapter performs any sequence of the public member calls, each on a
  shape of its choice, and carries on with the adapter and the environment as each
  call leaves them, whether the call returned or threw.
\<close>

datatype client_op =
    Do_visit_Circle Circle | Do_visit_Square Square | Do_visit_Blob Blob
  | Do_call_Circle Circle | Do_call_Square Square | Do_call_Blob Blob
  | Do_get

text \<open>\<open>near v c tol\<close>: the datum \<open>v\<close> is finite and its value is within \<open>tol\<close> of \<open>c\<close>.\<close>

definition near :: "double \<Rightarrow> rat \<Rightarrow> rat \<Rightarrow> bool" where
  "near v c tol = (case valof v of Some x \<Rightarrow> \<bar>x - c\<bar> \<le> tol | None \<Rightarrow> False)"

section \<open>Handlers that reach their adapter\<close>

text \<open>
  The target of a \<open>std::function\<close> may hold a pointer to the adapter that stores it, and
  \<open>FunctionAdapter\<close> keeps its implicit public copy assignment.  So a handler can run
  \<open>*self = src\<close> while \<open>visit\<close> is executing it, which replaces \<open>_res\<close> and all three handler
  fields of the adapter.  \<open>FunctionAdapter_self\<close> is the adapter with such handlers: a
  handler call also reports the adapter value it last assigned to the adapter that
  holds it, if it assigned any.  \<open>visit\<close> then stores the handler's result in the adapter
  as the handler left it.  What a handler reads of its adapter is not modelled.
\<close>

datatype ('r, 'w) FunctionAdapter_self =
  FunctionAdapter_self
    (res_self: 'r)
    (fn_circle_self: "Circle \<Rightarrow> 'w \<Rightarrow> (exn + 'r) \<times> Circle \<times> 'w \<times> ('r, 'w) FunctionAdapter_self option")
    (fn_square_self: "Square \<Rightarrow> 'w \<Rightarrow> (exn + 'r) \<times> Square \<times> 'w \<times> ('r, 'w) FunctionAdapter_self option")
    (fn_blob_self: "Blob \<Rightarrow> 'w \<Rightarrow> (exn + 'r) \<times> Blob \<times> 'w \<times> ('r, 'w) FunctionAdapter_self option")

type_synonym ('t, 'r, 'w) Func_self =
  "'t \<Rightarrow> 'w \<Rightarrow> (exn + 'r) \<times> 't \<times> 'w \<times> ('r, 'w) FunctionAdapter_self option"

definition FunctionAdapter_self_ctor ::
  "(Circle, 'r, 'w) Func_self \<Rightarrow> (Square, 'r, 'w) Func_self \<Rightarrow> (Blob, 'r, 'w) Func_self
     \<Rightarrow> ('r :: default, 'w) FunctionAdapter_self" where
  "FunctionAdapter_self_ctor fnCircle fnSquare fnBlob =
     FunctionAdapter_self default fnCircle fnSquare fnBlob"

definition get_self :: "('r, 'w) FunctionAdapter_self \<Rightarrow> 'r" where
  "get_self D = res_self D"

definition set_res_self :: "'r \<Rightarrow> ('r, 'w) FunctionAdapter_self \<Rightarrow> ('r, 'w) FunctionAdapter_self" where
  \<comment> \<open>the adapter with \<open>_res\<close> overwritten and the handler fields as they are\<close>
  "set_res_self v D = FunctionAdapter_self v (fn_circle_self D) (fn_square_self D) (fn_blob_self D)"

definition after_handler ::
  "('r, 'w) FunctionAdapter_self \<Rightarrow> ('r, 'w) FunctionAdapter_self option \<Rightarrow> ('r, 'w) FunctionAdapter_self" where
  \<comment> \<open>the adapter when the handler returns: as it was, or as the handler assigned it\<close>
  "after_handler D assigned = (case assigned of None \<Rightarrow> D | Some B \<Rightarrow> B)"

definition assign_res_self ::
  "('r, 'w) FunctionAdapter_self \<Rightarrow> (exn + 'r) \<times> 't \<times> 'w \<times> ('r, 'w) FunctionAdapter_self option
     \<Rightarrow> (exn + unit) \<times> ('r, 'w) FunctionAdapter_self \<times> 't \<times> 'w" where
  \<comment> \<open>\<open>_res = f(sh)\<close>, where \<open>f\<close> may have assigned to \<open>*this\<close>\<close>
  "assign_res_self D out =
     (case out of
        (Inl e, sh', w', assigned) \<Rightarrow> (Inl e, after_handler D assigned, sh', w')
      | (Inr r, sh', w', assigned) \<Rightarrow> (Inr (), set_res_self r (after_handler D assigned), sh', w'))"

definition visit_Circle_self ::
  "('r, 'w) FunctionAdapter_self \<Rightarrow> Circle \<Rightarrow> 'w
     \<Rightarrow> (exn + unit) \<times> ('r, 'w) FunctionAdapter_self \<times> Circle \<times> 'w" where
  "visit_Circle_self D sh w = assign_res_self D (fn_circle_self D sh w)"

definition visit_Square_self ::
  "('r, 'w) FunctionAdapter_self \<Rightarrow> Square \<Rightarrow> 'w
     \<Rightarrow> (exn + unit) \<times> ('r, 'w) FunctionAdapter_self \<times> Square \<times> 'w" where
  "visit_Square_self D sh w = assign_res_self D (fn_square_self D sh w)"

definition visit_Blob_self ::
  "('r, 'w) FunctionAdapter_self \<Rightarrow> Blob \<Rightarrow> 'w
     \<Rightarrow> (exn + unit) \<times> ('r, 'w) FunctionAdapter_self \<times> Blob \<times> 'w" where
  "visit_Blob_self D sh w = assign_res_self D (fn_blob_self D sh w)"

definition operator_call_self ::
  "(('r, 'w) FunctionAdapter_self \<Rightarrow> 't \<Rightarrow> 'w
      \<Rightarrow> (exn + unit) \<times> ('r, 'w) FunctionAdapter_self \<times> 't \<times> 'w)
     \<Rightarrow> ('r, 'w) FunctionAdapter_self \<Rightarrow> 't \<Rightarrow> 'w
     \<Rightarrow> (exn + 'r) \<times> ('r, 'w) FunctionAdapter_self \<times> 't \<times> 'w" where
  "operator_call_self visit_T D visitable w =
     (case visit_T D visitable w of
        (Inl e, D', sh', w') \<Rightarrow> (Inl e, D', sh', w')
      | (Inr u, D', sh', w') \<Rightarrow> (Inr (get_self D'), D', sh', w'))"

text \<open>A client's sequence of member calls on such an adapter.\<close>

fun perform_self ::
  "('r, 'w) FunctionAdapter_self \<times> 'w \<Rightarrow> client_op \<Rightarrow> ('r, 'w) FunctionAdapter_self \<times> 'w" where
  "perform_self (D, w) (Do_visit_Circle c) =
     (case visit_Circle_self D c w of (r, D', c', w') \<Rightarrow> (D', w'))"
| "perform_self (D, w) (Do_visit_Square s) =
     (case visit_Square_self D s w of (r, D', s', w') \<Rightarrow> (D', w'))"
| "perform_self (D, w) (Do_visit_Blob b) =
     (case visit_Blob_self D b w of (r, D', b', w') \<Rightarrow> (D', w'))"
| "perform_self (D, w) (Do_call_Circle c) =
     (case operator_call_self visit_Circle_self D c w of (r, D', c', w') \<Rightarrow> (D', w'))"
| "perform_self (D, w) (Do_call_Square s) =
     (case operator_call_self visit_Square_self D s w of (r, D', s', w') \<Rightarrow> (D', w'))"
| "perform_self (D, w) (Do_call_Blob b) =
     (case operator_call_self visit_Blob_self D b w of (r, D', b', w') \<Rightarrow> (D', w'))"
| "perform_self (D, w) Do_get = (D, w)"

text \<open>\<open>never_assigns D\<close>: no handler of \<open>D\<close> assigns to the adapter that holds it.\<close>

definition never_assigns :: "('r, 'w) FunctionAdapter_self \<Rightarrow> bool" where
  "never_assigns D =
     ((\<forall>c w. snd (snd (snd (fn_circle_self D c w))) = None)
    \<and> (\<forall>s w. snd (snd (snd (fn_square_self D s w))) = None)
    \<and> (\<forall>b w. snd (snd (snd (fn_blob_self D b w))) = None))"

text \<open>
  An adapter whose handlers do not reach it, as in the sections above, is the special
  case in which no handler reports an assignment.
\<close>

definition no_assignment ::
  "(exn + 'r) \<times> 't \<times> 'w \<Rightarrow> (exn + 'r) \<times> 't \<times> 'w \<times> ('r, 'w) FunctionAdapter_self option" where
  "no_assignment out = (case out of (r, sh', w') \<Rightarrow> (r, sh', w', None))"

definition as_self :: "('r, 'w) FunctionAdapter \<Rightarrow> ('r, 'w) FunctionAdapter_self" where
  "as_self D =
     FunctionAdapter_self (res D)
       (\<lambda>sh w. no_assignment (fn_circle D sh w))
       (\<lambda>sh w. no_assignment (fn_square D sh w))
       (\<lambda>sh w. no_assignment (fn_blob D sh w))"

text \<open>
  A client whose circle handler assigns to its adapter:
  \<^verbatim>\<open>
  FunctionAdapter<std::string> src{
    [](Circle&){ return "other"; }, [](Square&){ return "other"; }, [](Blob&){ return "other"; }};
  FunctionAdapter<std::string>* self = nullptr;
  FunctionAdapter<std::string> d{
    [&](Circle&){ *self = src; return "circle"; },
    [](Square&){ return "square"; }, [](Blob&){ return "blob"; }};
  self = &d;
  \<close>
\<close>

definition src_adapter :: "(string, unit) FunctionAdapter_self" where
  "src_adapter = FunctionAdapter_self_ctor
     (\<lambda>sh w. (Inr ''other'', sh, w, None))
     (\<lambda>sh w. (Inr ''other'', sh, w, None))
     (\<lambda>sh w. (Inr ''other'', sh, w, None))"

definition self_assigning_adapter :: "(string, unit) FunctionAdapter_self" where
  "self_assigning_adapter = FunctionAdapter_self_ctor
     (\<lambda>sh w. (Inr ''circle'', sh, w, Some src_adapter))
     (\<lambda>sh w. (Inr ''square'', sh, w, None))
     (\<lambda>sh w. (Inr ''blob'', sh, w, None))"

section \<open>Objects, references and the call in \<open>accept\<close>\<close>

text \<open>
  \<open>Visitable<Implementation>::accept\<close> runs in the base subobject \<open>Visitable<Implementation>\<close>
  of some object, casts \<open>*this\<close> to \<open>Implementation&\<close> and calls \<open>v.visit\<close> on the result.
  Which object the call reaches, at which static type, and which \<open>visit\<close> overload is
  selected is computed here over a store of objects.  A reference is the address of a
  complete object together with the static type it is seen at; the three shape classes
  each derive from \<open>IShape\<close> and from \<open>Visitable\<close> of themselves.
\<close>

datatype class_name = Circle_class | Square_class | Blob_class

datatype static_type = Class class_name | Visitable class_name | IShape

fun direct_bases :: "class_name \<Rightarrow> static_type list" where
  "direct_bases Circle_class = [IShape, Visitable Circle_class]"
| "direct_bases Square_class = [IShape, Visitable Square_class]"
| "direct_bases Blob_class = [IShape, Visitable Blob_class]"

datatype object = Circle_object Circle | Square_object Square | Blob_object Blob

fun class_of :: "object \<Rightarrow> class_name" where
  "class_of (Circle_object sh) = Circle_class"
| "class_of (Square_object sh) = Square_class"
| "class_of (Blob_object sh) = Blob_class"

type_synonym addr = nat

type_synonym store = "addr \<Rightarrow> object option"

type_synonym reference = "addr \<times> static_type"

text \<open>
  A program that does not compile is \<open>Ill_formed\<close>; a cast to a class the object is not
  has undefined behaviour.
\<close>

datatype fault = Ill_formed | Undefined

definition static_cast_type :: "class_name \<Rightarrow> static_type \<Rightarrow> fault + static_type" where
  \<comment> \<open>the type of \<open>static_cast<D&>(x)\<close> for an lvalue \<open>x\<close> of type \<open>t\<close>: \<open>t\<close> is \<open>D\<close> or a base of \<open>D\<close>\<close>
  "static_cast_type D t =
     (if t = Class D \<or> t \<in> set (direct_bases D) then Inr (Class D) else Inl Ill_formed)"

definition static_cast_object :: "store \<Rightarrow> class_name \<Rightarrow> addr \<Rightarrow> fault + addr" where
  \<comment> \<open>the object the cast refers to: the one the base belongs to, which must be a \<open>D\<close>\<close>
  "static_cast_object h D a =
     (case h a of
        None \<Rightarrow> Inl Undefined
      | Some ob \<Rightarrow> if class_of ob = D then Inr a else Inl Undefined)"

text \<open>
  A visitor class is given by its \<open>visit\<close> overloads, one per parameter class at most.
  Each takes the visitor, the reference, the store and the environment.  An lvalue
  of class type \<open>C\<close> selects the overload with parameter \<open>C&\<close>; an lvalue of type
  \<open>Visitable<C>\<close> or \<open>IShape\<close> converts to no shape class and selects none.
\<close>

type_synonym ('v, 'w) visit_method =
  "'v \<Rightarrow> reference \<Rightarrow> store \<Rightarrow> 'w \<Rightarrow> fault + ((exn + unit) \<times> 'v \<times> store \<times> 'w)"

definition resolve_visit :: "(class_name \<Rightarrow> 'm option) \<Rightarrow> static_type \<Rightarrow> fault + 'm" where
  "resolve_visit overloads t =
     (case t of
        Class C \<Rightarrow> (case overloads C of None \<Rightarrow> Inl Ill_formed | Some m \<Rightarrow> Inr m)
      | Visitable C \<Rightarrow> Inl Ill_formed
      | IShape \<Rightarrow> Inl Ill_formed)"

definition Visitable_accept ::
  "class_name \<Rightarrow> (class_name \<Rightarrow> ('v, 'w) visit_method option) \<Rightarrow> addr \<Rightarrow> 'v \<Rightarrow> store \<Rightarrow> 'w
     \<Rightarrow> fault + ((exn + unit) \<times> 'v \<times> store \<times> 'w)" where
  \<comment> \<open>\<open>v.visit(static_cast<Implementation&>(*this))\<close>, with \<open>*this\<close> a \<open>Visitable<Implementation>\<close>\<close>
  "Visitable_accept Implementation overloads this v h w =
     (case static_cast_type Implementation (Visitable Implementation) of
        Inl f \<Rightarrow> Inl f
      | Inr t \<Rightarrow>
          (case resolve_visit overloads t of
             Inl f \<Rightarrow> Inl f
           | Inr m \<Rightarrow>
               (case static_cast_object h Implementation this of
                  Inl f \<Rightarrow> Inl f
                | Inr a \<Rightarrow> m v (a, t) h w)))"

text \<open>
  The three \<open>visit\<close> overloads of \<open>FunctionAdapter\<close> on references: each reads the shape
  at the address, runs the member function on it and writes the shape back there.
\<close>

definition visit_Circle_ref :: "(('r, 'w) FunctionAdapter, 'w) visit_method" where
  "visit_Circle_ref D x h w =
     (case h (fst x) of
        Some (Circle_object sh) \<Rightarrow>
          (case visit_Circle D sh w of
             (r, D', sh', w') \<Rightarrow> Inr (r, D', h(fst x \<mapsto> Circle_object sh'), w'))
      | _ \<Rightarrow> Inl Undefined)"

definition visit_Square_ref :: "(('r, 'w) FunctionAdapter, 'w) visit_method" where
  "visit_Square_ref D x h w =
     (case h (fst x) of
        Some (Square_object sh) \<Rightarrow>
          (case visit_Square D sh w of
             (r, D', sh', w') \<Rightarrow> Inr (r, D', h(fst x \<mapsto> Square_object sh'), w'))
      | _ \<Rightarrow> Inl Undefined)"

definition visit_Blob_ref :: "(('r, 'w) FunctionAdapter, 'w) visit_method" where
  "visit_Blob_ref D x h w =
     (case h (fst x) of
        Some (Blob_object sh) \<Rightarrow>
          (case visit_Blob D sh w of
             (r, D', sh', w') \<Rightarrow> Inr (r, D', h(fst x \<mapsto> Blob_object sh'), w'))
      | _ \<Rightarrow> Inl Undefined)"

fun FunctionAdapter_visit ::
  "class_name \<Rightarrow> (('r, 'w) FunctionAdapter, 'w) visit_method option" where
  "FunctionAdapter_visit Circle_class = Some visit_Circle_ref"
| "FunctionAdapter_visit Square_class = Some visit_Square_ref"
| "FunctionAdapter_visit Blob_class = Some visit_Blob_ref"

section \<open>Evaluating \<open>double\<close> arithmetic\<close>

lemma bit_length_numeral:
  "bit_length 0 = 0"
  "bit_length 1 = 1"
  "bit_length (Suc 0) = 1"
  "bit_length (numeral Num.One) = 1"
  "bit_length (numeral (Num.Bit0 n)) = bit_length (numeral n) + 1"
  "bit_length (numeral (Num.Bit1 n)) = bit_length (numeral n) + 1"
  by (subst bit_length.simps, simp add: bit_length.simps [of 0])+

lemmas double_eval = bit_length_numeral floor_log2_def round_to_double_def round_dyadic_def
  double_lit_def double_of_int_def Let_def

lemma three_and_four:
  "double_lit 30 10 = Finite False 6755399441055744 (- 51)"
  "double_lit 40 10 = Finite False 4503599627370496 (- 50)"
  by (simp_all add: double_eval)

text \<open>
  The literals \<open>3.0\<close>, \<open>4.0\<close> and \<open>100.0\<close> and the converted \<open>2\<close> are represented exactly;
  \<open>3.1415\<close> is not, and is stored as the nearest datum, less than \<open>2^-52\<close> away.
\<close>

lemma exact_operands:
  "valof (double_lit 30 10) = Some 3"
  "valof (double_lit 40 10) = Some 4"
  "valof (double_lit 1000 10) = Some 100"
  "valof (double_of_int 2) = Some 2"
  by (simp_all add: double_eval)

lemma literal_3_1415:
  "double_lit 31415 10000 = Finite False 7074029114692207 (- 51)"
  "near (double_lit 31415 10000) (31415 / 10000) (1 / 2 ^ 52)"
  "valof (double_lit 31415 10000) \<noteq> Some (31415 / 10000)"
  by (simp_all add: double_eval near_def)

lemma circle_3_area:
  "fmul (fmul (fmul (double_of_int 2) (double_lit 31415 10000)) (double_lit 30 10)) (double_lit 30 10)
     = Finite False 7958282754028732 (- 47)"
  by (simp add: double_eval)

lemma square_4_area:
  "fmul (double_lit 40 10) (double_lit 40 10) = Finite False 4503599627370496 (- 48)"
  by (simp add: double_eval)

lemma blob_area: "fneg (double_lit 1000 10) = Finite True 7036874417766400 (- 46)"
  by (simp add: double_eval)

section \<open>What a member call leaves behind\<close>

lemma assign_res_get:
  "get (adapter_of (assign_res D out)) = (case fst out of Inr r \<Rightarrow> r | Inl e \<Rightarrow> get D)"
  by (cases out) (simp add: assign_res_def get_def split: sum.split)

lemma assign_res_keeps_handlers:
  "adapter_of (assign_res D out) = D\<lparr>res := get (adapter_of (assign_res D out))\<rparr>"
  by (cases out) (simp add: assign_res_def get_def split: sum.split)

lemma visit_keeps_handlers:
  "adapter_of (visit_Circle D c w) = D\<lparr>res := get (adapter_of (visit_Circle D c w))\<rparr>"
  "adapter_of (visit_Square D s w) = D\<lparr>res := get (adapter_of (visit_Square D s w))\<rparr>"
  "adapter_of (visit_Blob D b w) = D\<lparr>res := get (adapter_of (visit_Blob D b w))\<rparr>"
  unfolding visit_Circle_def visit_Square_def visit_Blob_def
  by (rule assign_res_keeps_handlers)+

lemmas adapter_calls = operator_call_def visit_Circle_def visit_Square_def visit_Blob_def
  assign_res_def accept_def get_def FunctionAdapter_ctor_def

lemma empty_handler_throws:
  "operator_call visit_Circle (FunctionAdapter_ctor empty_Func hS hB) c w
     = (Inl Bad_function_call, FunctionAdapter_ctor empty_Func hS hB, c, w)"
  by (simp add: adapter_calls empty_Func_def)

section \<open>Adapters whose handlers reach them\<close>

lemmas self_calls = operator_call_self_def visit_Circle_self_def visit_Square_self_def
  visit_Blob_self_def assign_res_self_def after_handler_def set_res_self_def get_self_def
  FunctionAdapter_self_ctor_def

lemma never_assigns_set_res: "never_assigns (set_res_self v D) = never_assigns D"
  by (simp add: never_assigns_def set_res_self_def)

lemma set_res_self_twice: "set_res_self v (set_res_self u D) = set_res_self v D"
  by (simp add: set_res_self_def)

lemma assign_res_self_quiet:
  assumes "snd (snd (snd out)) = None"
  shows "\<exists>v. fst (snd (assign_res_self D out)) = set_res_self v D"
proof -
  have id: "D = set_res_self (res_self D) D" by (simp add: set_res_self_def)
  obtain r sh' w' where out: "out = (r, sh', w', None)"
    using assms by (cases out) auto
  show ?thesis
  proof (cases r)
    case (Inl e)
    with out id show ?thesis by (auto simp: assign_res_self_def after_handler_def)
  next
    case (Inr v)
    with out show ?thesis by (auto simp: assign_res_self_def after_handler_def)
  qed
qed

lemma operator_call_self_adapter:
  "fst (snd (operator_call_self visit_T D x w)) = fst (snd (visit_T D x w))"
  by (cases "visit_T D x w") (simp add: operator_call_self_def split: sum.split)

lemma perform_self_quiet:
  assumes "never_assigns D"
  shows "\<exists>v. fst (perform_self (D, w) a) = set_res_self v D"
proof -
  have id: "D = set_res_self (res_self D) D" by (simp add: set_res_self_def)
  have pr: "(case k of (r, D', x', w') \<Rightarrow> (D', w')) = (fst (snd k), snd (snd (snd k)))"
    for k :: "'e \<times> ('a, 'b) FunctionAdapter_self \<times> 'x \<times> 'b"
    by (cases k) simp
  from assms have q:
    "\<And>c w. snd (snd (snd (fn_circle_self D c w))) = None"
    "\<And>s w. snd (snd (snd (fn_square_self D s w))) = None"
    "\<And>b w. snd (snd (snd (fn_blob_self D b w))) = None"
    by (simp_all add: never_assigns_def)
  show ?thesis
  proof (cases a)
    case (Do_visit_Circle c)
    with assign_res_self_quiet [OF q(1), of D c w] show ?thesis
      by (simp add: pr visit_Circle_self_def)
  next
    case (Do_visit_Square s)
    with assign_res_self_quiet [OF q(2), of D s w] show ?thesis
      by (simp add: pr visit_Square_self_def)
  next
    case (Do_visit_Blob b)
    with assign_res_self_quiet [OF q(3), of D b w] show ?thesis
      by (simp add: pr visit_Blob_self_def)
  next
    case (Do_call_Circle c)
    with assign_res_self_quiet [OF q(1), of D c w] show ?thesis
      by (simp add: pr operator_call_self_adapter visit_Circle_self_def)
  next
    case (Do_call_Square s)
    with assign_res_self_quiet [OF q(2), of D s w] show ?thesis
      by (simp add: pr operator_call_self_adapter visit_Square_self_def)
  next
    case (Do_call_Blob b)
    with assign_res_self_quiet [OF q(3), of D b w] show ?thesis
      by (simp add: pr operator_call_self_adapter visit_Blob_self_def)
  next
    case Do_get
    with id show ?thesis by (simp, blast)
  qed
qed

lemma foldl_perform_self_quiet:
  "never_assigns D \<Longrightarrow> \<exists>v. fst (foldl perform_self (D, w) ops) = set_res_self v D"
proof (induction ops arbitrary: D w)
  case Nil
  have "D = set_res_self (res_self D) D" by (simp add: set_res_self_def)
  then show ?case by (simp, blast)
next
  case (Cons a ops)
  obtain D1 w1 where p: "perform_self (D, w) a = (D1, w1)"
    by (cases "perform_self (D, w) a")
  from perform_self_quiet [OF Cons.prems, of w a] p obtain u where D1: "D1 = set_res_self u D"
    by auto
  with Cons.prems have "never_assigns D1" by (simp add: never_assigns_set_res)
  from Cons.IH [OF this, of w1]
  obtain v where "fst (foldl perform_self (D1, w1) ops) = set_res_self v D1"
    by blast
  with D1 p show ?case by (intro exI [of _ v]) (simp add: set_res_self_twice)
qed

text \<open>
  The adapters of the earlier sections are those that never assign, and on them the
  member functions of the two models agree.
\<close>

lemma as_self_never_assigns: "never_assigns (as_self D)"
  by (simp add: never_assigns_def as_self_def no_assignment_def split: prod.split)

lemma visit_as_self:
  "visit_Circle_self (as_self D) c w =
     (case visit_Circle D c w of (r, D', x', w') \<Rightarrow> (r, as_self D', x', w'))"
  "visit_Square_self (as_self D) s w =
     (case visit_Square D s w of (r, D', x', w') \<Rightarrow> (r, as_self D', x', w'))"
  "visit_Blob_self (as_self D) b w =
     (case visit_Blob D b w of (r, D', x', w') \<Rightarrow> (r, as_self D', x', w'))"
  by (simp_all add: self_calls adapter_calls as_self_def no_assignment_def
      split: prod.split sum.split)

section \<open>The cast and the overload in \<open>accept\<close>\<close>

lemma Visitable_is_base: "Visitable T \<in> set (direct_bases T)"
  by (cases T) simp_all

lemma cast_in_accept_is_well_formed: "static_cast_type T (Visitable T) = Inr (Class T)"
  by (simp add: static_cast_type_def Visitable_is_base)

text \<open>
  The call can fail: a visitor without an overload for the class does not compile, and
  a base that belongs to an object of another class makes the cast undefined.  Were
  \<open>*this\<close> passed on uncast, at its base type, no overload would be selected.
\<close>

lemma accept_without_overload:
  "overloads T = None \<Longrightarrow> Visitable_accept T overloads this v h w = Inl Ill_formed"
  by (simp add: Visitable_accept_def cast_in_accept_is_well_formed resolve_visit_def)

lemma accept_on_other_object:
  "overloads T = Some m \<Longrightarrow> h this = Some ob \<Longrightarrow> class_of ob \<noteq> T
     \<Longrightarrow> Visitable_accept T overloads this v h w = Inl Undefined"
  by (simp add: Visitable_accept_def cast_in_accept_is_well_formed resolve_visit_def
      static_cast_object_def)

lemma base_reference_selects_nothing:
  "resolve_visit overloads (Visitable T) = Inl Ill_formed"
  "resolve_visit overloads IShape = Inl Ill_formed"
  by (simp_all add: resolve_visit_def)

text \<open>
  With a \<open>FunctionAdapter\<close> as the visitor, \<open>accept\<close> on the object at \<open>a\<close> is the member call
  of section Visitable on the shape stored there, written back to \<open>a\<close>.
\<close>

lemma accept_FunctionAdapter:
  "h a = Some (Circle_object c) \<Longrightarrow>
     Visitable_accept Circle_class FunctionAdapter_visit a D h w =
       (case accept visit_Circle c D w of
          (r, D', c', w') \<Rightarrow> Inr (r, D', h(a \<mapsto> Circle_object c'), w'))"
  "h a = Some (Square_object s) \<Longrightarrow>
     Visitable_accept Square_class FunctionAdapter_visit a D h w =
       (case accept visit_Square s D w of
          (r, D', s', w') \<Rightarrow> Inr (r, D', h(a \<mapsto> Square_object s'), w'))"
  "h a = Some (Blob_object b) \<Longrightarrow>
     Visitable_accept Blob_class FunctionAdapter_visit a D h w =
       (case accept visit_Blob b D w of
          (r, D', b', w') \<Rightarrow> Inr (r, D', h(a \<mapsto> Blob_object b'), w'))"
  by (simp_all add: Visitable_accept_def cast_in_accept_is_well_formed resolve_visit_def
      static_cast_object_def visit_Circle_ref_def visit_Square_ref_def visit_Blob_ref_def
      accept_def)

section \<open>The claims\<close>

text \<open>
  C1.  Let \<open>D\<close> be an adapter constructed with the handlers \<open>hC\<close>, \<open>hS\<close> and \<open>hB\<close>, at
  any later time (its last result \<open>r0\<close> is arbitrary).  For a \<open>Circle\<close>, a \<open>Square\<close> and a
  \<open>Blob\<close>, the call \<open>D(x)\<close> does exactly what the handler bound for that type does on \<open>x\<close>:
  it returns the handler's value (or throws what the handler throws) and leaves the
  shape and the environment as the handler leaves them.
\<close>

theorem operator_call_returns_handler_result:
  "effect_of (operator_call visit_Circle ((FunctionAdapter_ctor hC hS hB)\<lparr>res := r0\<rparr>) c w) = hC c w
 \<and> effect_of (operator_call visit_Square ((FunctionAdapter_ctor hC hS hB)\<lparr>res := r0\<rparr>) s w) = hS s w
 \<and> effect_of (operator_call visit_Blob ((FunctionAdapter_ctor hC hS hB)\<lparr>res := r0\<rparr>) b w) = hB b w"
  by (cases "hC c w"; cases "hS s w"; cases "hB b w")
     (simp add: adapter_calls split: sum.split)

text \<open>
  C2.  After \<open>D.visit(x)\<close>, \<open>D.get()\<close> is the value the handler for the type of \<open>x\<close>
  returned (and the previous last result when that handler threw, since the assignment
  is then not reached).  The same holds for a visit that follows an earlier visit of a
  shape of any type: with \<open>D1\<close> the adapter as the earlier visit left it, \<open>get\<close> after
  visiting \<open>y\<close> is the value the handler of \<open>D\<close> for the type of \<open>y\<close> returned, whatever
  the earlier visit stored.
\<close>

theorem last_result_is_latest_only:
  assumes "D1 = adapter_of (visit_Circle D c0 w0) \<or> D1 = adapter_of (visit_Square D s0 w0)
             \<or> D1 = adapter_of (visit_Blob D b0 w0)"
  shows "get (adapter_of (visit_Circle D c w)) = (case fst (fn_circle D c w) of Inr r \<Rightarrow> r | Inl e \<Rightarrow> get D)
       \<and> get (adapter_of (visit_Square D s w)) = (case fst (fn_square D s w) of Inr r \<Rightarrow> r | Inl e \<Rightarrow> get D)
       \<and> get (adapter_of (visit_Blob D b w)) = (case fst (fn_blob D b w) of Inr r \<Rightarrow> r | Inl e \<Rightarrow> get D)
       \<and> get (adapter_of (visit_Circle D1 c w)) = (case fst (fn_circle D c w) of Inr r \<Rightarrow> r | Inl e \<Rightarrow> get D1)
       \<and> get (adapter_of (visit_Square D1 s w)) = (case fst (fn_square D s w) of Inr r \<Rightarrow> r | Inl e \<Rightarrow> get D1)
       \<and> get (adapter_of (visit_Blob D1 b w)) = (case fst (fn_blob D b w) of Inr r \<Rightarrow> r | Inl e \<Rightarrow> get D1)"
proof -
  from assms consider
      (circle) "D1 = adapter_of (visit_Circle D c0 w0)"
    | (square) "D1 = adapter_of (visit_Square D s0 w0)"
    | (blob) "D1 = adapter_of (visit_Blob D b0 w0)"
    by blast
  then obtain r1 where D1: "D1 = D\<lparr>res := r1\<rparr>"
  proof cases
    case circle
    with visit_keeps_handlers(1) [of D c0 w0] that show ?thesis by simp
  next
    case square
    with visit_keeps_handlers(2) [of D s0 w0] that show ?thesis by simp
  next
    case blob
    with visit_keeps_handlers(3) [of D b0 w0] that show ?thesis by simp
  qed
  then have tbl: "fn_circle D1 = fn_circle D" "fn_square D1 = fn_square D" "fn_blob D1 = fn_blob D"
    by simp_all
  show ?thesis
    unfolding visit_Circle_def visit_Square_def visit_Blob_def assign_res_get tbl by simp
qed

text \<open>
  The name dispatcher visits the circle of \<open>main\<close> and then its square: the last result
  is \<open>"circle"\<close> and then \<open>"square"\<close>.
\<close>

theorem last_result_is_latest_only_witness:
  "(adapter_of (visit_Circle (visitorGetName :: (string, unit) FunctionAdapter) (Circle_ctor (double_lit 30 10)) ())
      = adapter_of (visit_Circle visitorGetName (Circle_ctor (double_lit 30 10)) ())
    \<or> adapter_of (visit_Circle (visitorGetName :: (string, unit) FunctionAdapter) (Circle_ctor (double_lit 30 10)) ())
      = adapter_of (visit_Square visitorGetName (Square_ctor (double_lit 40 10)) ())
    \<or> adapter_of (visit_Circle (visitorGetName :: (string, unit) FunctionAdapter) (Circle_ctor (double_lit 30 10)) ())
      = adapter_of (visit_Blob visitorGetName Blob_ctor ()))
   \<and> get (adapter_of (visit_Circle (visitorGetName :: (string, unit) FunctionAdapter) (Circle_ctor (double_lit 30 10)) ())) = ''circle''
   \<and> get (adapter_of (visit_Square
        (adapter_of (visit_Circle (visitorGetName :: (string, unit) FunctionAdapter) (Circle_ctor (double_lit 30 10)) ()))
        (Square_ctor (double_lit 40 10)) ())) = ''square''"
  using last_result_is_latest_only
    [of "adapter_of (visit_Circle (visitorGetName :: (string, unit) FunctionAdapter) (Circle_ctor (double_lit 30 10)) ())"
      visitorGetName "Circle_ctor (double_lit 30 10)" "()" "Square_ctor (double_lit 40 10)" Blob_ctor
      "Circle_ctor (double_lit 30 10)" "()" "Square_ctor (double_lit 40 10)" Blob_ctor]
  by (simp add: visitorGetName_def FunctionAdapter_ctor_def)

text \<open>
  C3, as the code has it.  The circle handler of \<open>visitorGetArea\<close> multiplies by the
  literal \<open>3.1415\<close>, not by pi.  On \<open>Circle(3.0)\<close> it yields the binary64 datum
  \<open>7958282754028732 * 2^-47\<close>, which is within \<open>10^-13\<close> of \<open>56.547\<close>.  On \<open>Square(4.0)\<close> the
  handler \<open>4.0 * s\<close> yields exactly \<open>16\<close>, and on a \<open>Blob\<close> the constant handler yields exactly
  \<open>-100\<close>.
\<close>

theorem visitorGetArea_results:
  "outcome_of (operator_call visit_Circle (visitorGetArea\<lparr>res := r0\<rparr>) (Circle_ctor (double_lit 30 10)) w)
     = Inr (Finite False 7958282754028732 (- 47))
 \<and> near (Finite False 7958282754028732 (- 47)) (56547 / 1000) (1 / 10 ^ 13)
 \<and> outcome_of (operator_call visit_Square (visitorGetArea\<lparr>res := r0\<rparr>) (Square_ctor (double_lit 40 10)) w)
     = Inr (Finite False 4503599627370496 (- 48))
 \<and> valof (Finite False 4503599627370496 (- 48)) = Some 16
 \<and> outcome_of (operator_call visit_Blob (visitorGetArea\<lparr>res := r0\<rparr>) b w)
     = Inr (Finite True 7036874417766400 (- 46))
 \<and> valof (Finite True 7036874417766400 (- 46)) = Some (- 100)"
  by (simp add: adapter_calls visitorGetArea_def Circle_ctor_def Square_ctor_def
      circle_3_area square_4_area blob_area near_def)

text \<open>
  C3, as the specification states it, fails: the result for \<open>Circle(3.0)\<close> is not within
  \<open>0.001\<close> of \<open>56.5486\<close>, the value of \<open>2 * pi * 3 * 3\<close>.
\<close>

theorem visitorGetArea_circle_is_not_2_pi_r_r:
  "\<not> near (get (adapter_of (operator_call visit_Circle
        (visitorGetArea :: (double, unit) FunctionAdapter) (Circle_ctor (double_lit 30 10)) ())))
      (565486 / 10000) (1 / 1000)"
  by (simp add: adapter_calls visitorGetArea_def Circle_ctor_def circle_3_area near_def)

text \<open>
  C4.  For every instance of \<open>operator()\<close>, \<open>D(x)\<close> is \<open>D.visit(x)\<close> followed by \<open>D.get()\<close>:
  it leaves the adapter, the shape and the environment as \<open>visit\<close> leaves them, throws
  what \<open>visit\<close> throws, and otherwise returns what \<open>get\<close> returns on the adapter that
  \<open>visit\<close> left.
\<close>

theorem operator_call_is_visit_then_get:
  "adapter_of (operator_call visit_T D x w) = adapter_of (visit_T D x w)
 \<and> shape_of (operator_call visit_T D x w) = shape_of (visit_T D x w)
 \<and> env_of (operator_call visit_T D x w) = env_of (visit_T D x w)
 \<and> outcome_of (operator_call visit_T D x w)
      = (case outcome_of (visit_T D x w) of
           Inl e \<Rightarrow> Inl e
         | Inr u \<Rightarrow> Inr (get (adapter_of (visit_T D x w))))"
  by (cases "visit_T D x w") (simp add: operator_call_def split: sum.split)

text \<open>
  C5.  The name dispatcher, in any state: dispatching any \<open>Circle\<close> returns \<open>"circle"\<close> and
  \<open>get\<close> is \<open>"circle"\<close> afterwards, through \<open>operator()\<close> and through \<open>accept\<close> alike; any
  \<open>Square\<close> gives \<open>"square"\<close> and any \<open>Blob\<close> gives \<open>"blob"\<close>.
\<close>

theorem visitorGetName_results:
  "outcome_of (operator_call visit_Circle (visitorGetName\<lparr>res := r0\<rparr>) c w) = Inr ''circle''
 \<and> get (adapter_of (operator_call visit_Circle (visitorGetName\<lparr>res := r0\<rparr>) c w)) = ''circle''
 \<and> get (adapter_of (accept visit_Circle c (visitorGetName\<lparr>res := r0\<rparr>) w)) = ''circle''
 \<and> outcome_of (operator_call visit_Square (visitorGetName\<lparr>res := r0\<rparr>) s w) = Inr ''square''
 \<and> get (adapter_of (operator_call visit_Square (visitorGetName\<lparr>res := r0\<rparr>) s w)) = ''square''
 \<and> get (adapter_of (accept visit_Square s (visitorGetName\<lparr>res := r0\<rparr>) w)) = ''square''
 \<and> outcome_of (operator_call visit_Blob (visitorGetName\<lparr>res := r0\<rparr>) b w) = Inr ''blob''
 \<and> get (adapter_of (operator_call visit_Blob (visitorGetName\<lparr>res := r0\<rparr>) b w)) = ''blob''
 \<and> get (adapter_of (accept visit_Blob b (visitorGetName\<lparr>res := r0\<rparr>) w)) = ''blob''"
  by (simp add: adapter_calls visitorGetName_def)

text \<open>
  C6.  Let the object at address \<open>this\<close> be of class \<open>T\<close>, and let the visitor have a
  \<open>visit\<close> overload \<open>m\<close> for \<open>T\<close>.  Then \<open>accept\<close>, run in the \<open>Visitable<T>\<close> base of that
  object, is the call of \<open>m\<close> on the reference to the same object at the static type
  \<open>T\<close>, not at a base type, and it does nothing else: outcome, visitor, store and
  environment are those of that call.
\<close>

theorem accept_calls_visit_on_same_object:
  assumes "h this = Some ob" and "class_of ob = T" and "overloads T = Some m"
  shows "Visitable_accept T overloads this v h w = m v (this, Class T) h w"
  using assms
  by (simp add: Visitable_accept_def cast_in_accept_is_well_formed resolve_visit_def
      static_cast_object_def)

text \<open>
  The circle of \<open>main\<close>, placed at address \<open>0\<close>, accepts the name dispatcher: the
  \<open>Circle\<close> overload runs on the object at \<open>0\<close>, and the dispatcher holds \<open>"circle"\<close>.
\<close>

theorem accept_calls_visit_on_same_object_witness:
  "(Map.empty(0 \<mapsto> Circle_object (Circle_ctor (double_lit 30 10)))) 0
      = Some (Circle_object (Circle_ctor (double_lit 30 10)))
 \<and> class_of (Circle_object (Circle_ctor (double_lit 30 10))) = Circle_class
 \<and> (FunctionAdapter_visit :: class_name \<Rightarrow> ((string, unit) FunctionAdapter, unit) visit_method option)
      Circle_class = Some visit_Circle_ref
 \<and> Visitable_accept Circle_class FunctionAdapter_visit 0 (visitorGetName :: (string, unit) FunctionAdapter)
      (Map.empty(0 \<mapsto> Circle_object (Circle_ctor (double_lit 30 10)))) ()
    = visit_Circle_ref visitorGetName (0, Class Circle_class)
      (Map.empty(0 \<mapsto> Circle_object (Circle_ctor (double_lit 30 10)))) ()
 \<and> Visitable_accept Circle_class FunctionAdapter_visit 0 (visitorGetName :: (string, unit) FunctionAdapter)
      (Map.empty(0 \<mapsto> Circle_object (Circle_ctor (double_lit 30 10)))) ()
    = Inr (Inr (), visitorGetName\<lparr>res := ''circle''\<rparr>,
           Map.empty(0 \<mapsto> Circle_object (Circle_ctor (double_lit 30 10))), ())"
  using accept_calls_visit_on_same_object
    [of "Map.empty(0 \<mapsto> Circle_object (Circle_ctor (double_lit 30 10)))" 0
      "Circle_object (Circle_ctor (double_lit 30 10))" Circle_class
      "FunctionAdapter_visit :: class_name \<Rightarrow> ((string, unit) FunctionAdapter, unit) visit_method option"
      visit_Circle_ref "visitorGetName :: (string, unit) FunctionAdapter" "()"]
  by (simp add: visit_Circle_ref_def adapter_calls visitorGetName_def)

text \<open>
  C7, as the code has it.  The handler fields of a constructed adapter are the
  constructor's arguments.  If no handler of an adapter assigns to the adapter that
  holds it, as is the case for \<open>visitorGetName\<close> and \<open>visitorGetArea\<close>, then after any
  sequence of \<open>visit\<close>, \<open>operator()\<close> and \<open>get\<close> calls the three handler fields are what
  they were, and the adapter differs from what it was in \<open>_res\<close> at most.
\<close>

theorem handler_table_is_fixed_unless_assigned:
  assumes "never_assigns D"
  shows "fn_circle_self (FunctionAdapter_self_ctor hC hS hB) = hC
       \<and> fn_square_self (FunctionAdapter_self_ctor hC hS hB) = hS
       \<and> fn_blob_self (FunctionAdapter_self_ctor hC hS hB) = hB
       \<and> fn_circle_self (fst (foldl perform_self (D, w) ops)) = fn_circle_self D
       \<and> fn_square_self (fst (foldl perform_self (D, w) ops)) = fn_square_self D
       \<and> fn_blob_self (fst (foldl perform_self (D, w) ops)) = fn_blob_self D
       \<and> fst (foldl perform_self (D, w) ops)
           = set_res_self (get_self (fst (foldl perform_self (D, w) ops))) D"
proof -
  from foldl_perform_self_quiet [OF assms, of w ops]
  obtain v where v: "fst (foldl perform_self (D, w) ops) = set_res_self v D"
    by blast
  show ?thesis
    unfolding v by (simp add: set_res_self_def get_self_def FunctionAdapter_self_ctor_def)
qed

text \<open>
  The name dispatcher never assigns; after a visit of the circle of \<open>main\<close>, a call on
  its square and a \<open>get\<close>, its circle handler is the one it had and \<open>get\<close> is \<open>"square"\<close>.
\<close>

theorem handler_table_is_fixed_unless_assigned_witness:
  "never_assigns (as_self (visitorGetName :: (string, unit) FunctionAdapter))
 \<and> fn_circle_self (fst (foldl perform_self (as_self (visitorGetName :: (string, unit) FunctionAdapter), ())
      [Do_visit_Circle (Circle_ctor (double_lit 30 10)), Do_call_Square (Square_ctor (double_lit 40 10)), Do_get]))
    = fn_circle_self (as_self visitorGetName)
 \<and> get_self (fst (foldl perform_self (as_self (visitorGetName :: (string, unit) FunctionAdapter), ())
      [Do_visit_Circle (Circle_ctor (double_lit 30 10)), Do_call_Square (Square_ctor (double_lit 40 10)), Do_get]))
    = ''square''"
proof -
  have quiet: "never_assigns (as_self (visitorGetName :: (string, unit) FunctionAdapter))"
    by (rule as_self_never_assigns)
  from handler_table_is_fixed_unless_assigned [OF quiet,
      of "fn_circle_self src_adapter" "fn_square_self src_adapter" "fn_blob_self src_adapter" "()"
      "[Do_visit_Circle (Circle_ctor (double_lit 30 10)), Do_call_Square (Square_ctor (double_lit 40 10)), Do_get]"]
  have table: "fn_circle_self (fst (foldl perform_self (as_self (visitorGetName :: (string, unit) FunctionAdapter), ())
      [Do_visit_Circle (Circle_ctor (double_lit 30 10)), Do_call_Square (Square_ctor (double_lit 40 10)), Do_get]))
    = fn_circle_self (as_self visitorGetName)"
    by (elim conjE)
  have last: "get_self (fst (foldl perform_self (as_self (visitorGetName :: (string, unit) FunctionAdapter), ())
      [Do_visit_Circle (Circle_ctor (double_lit 30 10)), Do_call_Square (Square_ctor (double_lit 40 10)), Do_get]))
    = ''square''"
    by (simp add: self_calls as_self_def no_assignment_def visitorGetName_def FunctionAdapter_ctor_def)
  from quiet table last show ?thesis by simp
qed

text \<open>
  C7, as the specification states it, fails.  The circle handler of
  \<open>self_assigning_adapter\<close> assigns \<open>src_adapter\<close> to its adapter.  After one \<open>visit\<close> of a
  circle the circle handler field is no longer the one the adapter was constructed
  with, and the next call on a circle returns \<open>"other"\<close>, not \<open>"circle"\<close>.
\<close>

theorem visit_can_replace_handler_table:
  "fn_circle_self (fst (snd (visit_Circle_self self_assigning_adapter (Circle_ctor (double_lit 30 10)) ())))
     \<noteq> fn_circle_self self_assigning_adapter
 \<and> fst (operator_call_self visit_Circle_self
        (fst (snd (visit_Circle_self self_assigning_adapter (Circle_ctor (double_lit 30 10)) ())))
        (Circle_ctor (double_lit 30 10)) ())
     = Inr ''other''"
proof
  show "fn_circle_self (fst (snd (visit_Circle_self self_assigning_adapter (Circle_ctor (double_lit 30 10)) ())))
      \<noteq> fn_circle_self self_assigning_adapter"
  proof
    assume "fn_circle_self (fst (snd (visit_Circle_self self_assigning_adapter (Circle_ctor (double_lit 30 10)) ())))
        = fn_circle_self self_assigning_adapter"
    then have "fst (fn_circle_self
          (fst (snd (visit_Circle_self self_assigning_adapter (Circle_ctor (double_lit 30 10)) ())))
          (Circle_ctor (double_lit 30 10)) ())
        = fst (fn_circle_self self_assigning_adapter (Circle_ctor (double_lit 30 10)) ())"
      by simp
    then show False
      by (simp add: self_calls self_assigning_adapter_def src_adapter_def)
  qed
  show "fst (operator_call_self visit_Circle_self
        (fst (snd (visit_Circle_self self_assigning_adapter (Circle_ctor (double_lit 30 10)) ())))
        (Circle_ctor (double_lit 30 10)) ())
      = Inr ''other''"
    by (simp add: self_calls self_assigning_adapter_def src_adapter_def)
qed

text \<open>
  C8.  Started on the globals as static initialisation leaves them, with anything
  already on the output stream, \<open>main\<close> returns \<open>0\<close> without throwing, having appended
  the lines of the two experiments to the stream.
\<close>

theorem main_returns_0:
  "main (startup out) =
     (Inr 0,
      \<lparr>visitorGetName_obj = visitorGetName\<lparr>res := ''blob''\<rparr>,
       visitorGetArea_obj = visitorGetArea\<lparr>res := Finite True 7036874417766400 (- 46)\<rparr>,
       cout = out @
         [OStr ''===> Experiment 1: FunctionAdapter '', OStr newline,
          OStr ''Type of shape 1 = '', OStr ''circle'', OStr newline,
          OStr ''Type of shape 2 = '', OStr ''square'', OStr newline,
          OStr ''Type of shape 3 = '', OStr ''blob'', OStr newline,
          OStr ''===> Experiment 2: FunctionAdapter '', OStr newline,
          OStr ''Perimeter of shape 1 = '', ODouble (Finite False 7958282754028732 (- 47)), OStr newline,
          OStr ''Perimeter of shape 2 = '', ODouble (Finite False 4503599627370496 (- 48)), OStr newline,
          OStr ''Perimeter of shape 2 = '', ODouble (Finite False 4503599627370496 (- 48)), OStr newline,
          OStr ''Perimeter of shape 3 = '', ODouble (Finite True 7036874417766400 (- 46)), OStr newline]\<rparr>)"
  by (simp add: main_def startup_def seq_def ret_def put_def on_GetName_def on_GetArea_def
      read_GetName_def read_GetArea_def adapter_calls visitorGetName_def visitorGetArea_def
      Circle_ctor_def Square_ctor_def Blob_ctor_def circle_3_area square_4_area blob_area)

text \<open>
  C9.  \<open>get\<close> on a freshly constructed adapter returns the value-initialised \<open>Result\<close>:
  the empty string for a \<open>FunctionAdapter<std::string>\<close>, positive zero for a
  \<open>FunctionAdapter<double>\<close>, and so for the two dispatchers of the file.
\<close>

theorem get_before_visit_is_default:
  "get (FunctionAdapter_ctor hC hS hB) = default
 \<and> get (FunctionAdapter_ctor nC nS nB :: (string, 'w) FunctionAdapter) = ''''
 \<and> get (FunctionAdapter_ctor aC aS aB :: (double, 'w) FunctionAdapter) = Finite False 0 (- 1074)
 \<and> valof (get (FunctionAdapter_ctor aC aS aB :: (double, 'w) FunctionAdapter)) = Some 0
 \<and> get (visitorGetName :: (string, 'w) FunctionAdapter) = ''''
 \<and> valof (get (visitorGetArea :: (double, 'w) FunctionAdapter)) = Some 0"
  by (simp add: get_def FunctionAdapter_ctor_def visitorGetName_def visitorGetArea_def
      default_list_def default_double_def)

text \<open>
  C10.  For both dispatchers of the file, in any state, and each shape type: a dispatch
  returns the shape and the environment as it found them, and dispatching the same
  instance again gives the same outcome and leaves the same state.
\<close>

theorem dispatchers_leave_shape_unchanged:
  "(let k = operator_call visit_Circle (visitorGetName\<lparr>res := n0\<rparr>) c w
    in shape_of k = c \<and> env_of k = w
       \<and> operator_call visit_Circle (adapter_of k) (shape_of k) (env_of k) = k)
 \<and> (let k = operator_call visit_Square (visitorGetName\<lparr>res := n0\<rparr>) s w
    in shape_of k = s \<and> env_of k = w
       \<and> operator_call visit_Square (adapter_of k) (shape_of k) (env_of k) = k)
 \<and> (let k = operator_call visit_Blob (visitorGetName\<lparr>res := n0\<rparr>) b w
    in shape_of k = b \<and> env_of k = w
       \<and> operator_call visit_Blob (adapter_of k) (shape_of k) (env_of k) = k)
 \<and> (let k = operator_call visit_Circle (visitorGetArea\<lparr>res := a0\<rparr>) c w
    in shape_of k = c \<and> env_of k = w
       \<and> operator_call visit_Circle (adapter_of k) (shape_of k) (env_of k) = k)
 \<and> (let k = operator_call visit_Square (visitorGetArea\<lparr>res := a0\<rparr>) s w
    in shape_of k = s \<and> env_of k = w
       \<and> operator_call visit_Square (adapter_of k) (shape_of k) (env_of k) = k)
 \<and> (let k = operator_call visit_Blob (visitorGetArea\<lparr>res := a0\<rparr>) b w
    in shape_of k = b \<and> env_of k = w
       \<and> operator_call visit_Blob (adapter_of k) (shape_of k) (env_of k) = k)"
  by (simp add: adapter_calls visitorGetName_def visitorGetArea_def Let_def)

end
